theory Spec2Isabelle
  imports Complex_Main "HOL-Library.Word"
begin

section \<open>Error values\<close>

subsection \<open>models.APIError (pkg/models/errors.go)\<close>

text \<open>
  The structured error payload of the API.  The field \<open>Data\<close> has the Go type
  \<open>interface{}\<close>; it is kept as the raw text of the decoded value, \<open>None\<close> for nil.
  No classification predicate reads it.
\<close>

record APIError =
  Code :: string
  Message :: string
  RequestID :: string
  Data :: "string option"
  HTTPStatusCode :: int

text \<open>The status constants of net/http that the predicates name.\<close>

definition StatusBadRequest :: int where "StatusBadRequest = 400"
definition StatusUnauthorized :: int where "StatusUnauthorized = 401"
definition StatusForbidden :: int where "StatusForbidden = 403"
definition StatusTooManyRequests :: int where "StatusTooManyRequests = 429"
definition StatusInternalServerError :: int where "StatusInternalServerError = 500"
definition StatusBadGateway :: int where "StatusBadGateway = 502"
definition StatusServiceUnavailable :: int where "StatusServiceUnavailable = 503"
definition StatusGatewayTimeout :: int where "StatusGatewayTimeout = 504"

text \<open>
  Each predicate is two \<open>switch\<close> statements in sequence: the first on the HTTP status,
  the second on the code; falling through both returns false.
\<close>

definition IsRetryable :: "APIError \<Rightarrow> bool" where
  "IsRetryable e =
     (if HTTPStatusCode e \<in> set [StatusTooManyRequests, StatusInternalServerError,
           StatusBadGateway, StatusServiceUnavailable, StatusGatewayTimeout] then True
      else if Code e \<in> set [''RATE_LIMIT_EXCEEDED'', ''INTERNAL_ERROR'',
           ''SERVICE_UNAVAILABLE'', ''TIMEOUT''] then True
      else False)"

definition IsAuthenticationError :: "APIError \<Rightarrow> bool" where
  "IsAuthenticationError e =
     (if HTTPStatusCode e \<in> set [StatusUnauthorized, StatusForbidden] then True
      else if Code e \<in> set [''UNAUTHORIZED'', ''FORBIDDEN'', ''INVALID_ACCESS_TOKEN'',
           ''ACCESS_TOKEN_EXPIRED'', ''INSUFFICIENT_PERMISSIONS''] then True
      else False)"

definition IsValidationError :: "APIError \<Rightarrow> bool" where
  "IsValidationError e =
     (if HTTPStatusCode e \<in> set [StatusBadRequest] then True
      else if Code e \<in> set [''INVALID_PARAMETER'', ''MISSING_PARAMETER'',
           ''PARAMETER_VALUE_NOT_SUPPORTED'', ''VALIDATION_ERROR''] then True
      else False)"

definition IsRateLimitError :: "APIError \<Rightarrow> bool" where
  "IsRateLimitError e =
     (HTTPStatusCode e = StatusTooManyRequests \<or> Code e = ''RATE_LIMIT_EXCEEDED'')"

subsection \<open>Go error values\<close>

text \<open>
  A Go \<open>error\<close> is modelled by the value that produced it.  \<open>fmt.Errorf\<close> is kept
  structurally: its format string, its non-error arguments in order, and the error passed
  for \<open>%w\<close> (\<open>None\<close> when the format has no \<open>%w\<close> or the wrapped error is nil).
  \<open>ContextCanceled\<close> and \<open>DeadlineExceeded\<close> are the two errors of package context,
  \<open>UrlError\<close> is the \<open>*url.Error\<close> in which \<open>http.Client.Do\<close> wraps the cause of a
  failed send, and \<open>External\<close> is any other error made by a library (net, io,
  encoding/json, net/url, x/time/rate), named by its message.
\<close>

datatype fmt_arg = ArgInt int | ArgStr string

datatype go_error =
    ContextCanceled
  | DeadlineExceeded
  | External string
  | UrlError go_error
  | Errorf string "fmt_arg list" "go_error option"
  | ErrInvalidConfig string string
  | APIErr APIError


section \<open>Configuration (package client)\<close>

text \<open>
  \<open>time.Duration\<close> is an int64 count of nanoseconds; its arithmetic wraps around, and
  comparisons read it as a signed value (\<open>sint\<close>).  Go's \<open>int\<close> fields (\<open>MaxRetries\<close>,
  \<open>BurstSize\<close>, status codes, the loop counter) are only compared, and incremented by
  one from zero; they are modelled by \<open>int\<close>: a counter that starts at 0 reaches the wrap
  of a 64-bit integer only after \<open>2 ^ 63\<close> sends.
\<close>

type_synonym Duration = "64 word"

definition Second :: Duration where "Second = 1000000000"

text \<open>
  A \<open>float64\<close> is read only by the comparison \<open>x <= 0\<close>, which is false for NaN and for
  \<open>+Inf\<close>, true for \<open>-Inf\<close>, and the comparison of the reals otherwise (both zeros are
  \<open>Finite 0\<close>).
\<close>

datatype float64 = NaN | NegInf | Finite real | PosInf

fun le_zero :: "float64 \<Rightarrow> bool" where
  "le_zero NaN = False"
| "le_zero NegInf = True"
| "le_zero (Finite r) = (r \<le> 0)"
| "le_zero PosInf = False"

datatype BackoffStrategy = LinearBackoff | ExponentialBackoff | FixedBackoff

record RetryConfig =
  MaxRetries :: int
  BackoffStrategy :: BackoffStrategy
  InitialDelay :: Duration
  MaxDelay :: Duration
  Multiplier :: float64
  RetryableStatusCodes :: "int list"

record RateLimitConfig =
  RequestsPerSecond :: float64
  BurstSize :: int

text \<open>The two pointer fields are \<open>None\<close> when nil.\<close>

record Config =
  BaseURL :: string
  AccessToken :: string
  ClientID :: string
  ClientSecret :: string
  Timeout :: Duration
  RetryConfig :: "RetryConfig option"
  RateLimit :: "RateLimitConfig option"
  UserAgent :: string
  Debug :: bool

definition DefaultConfig :: Config where
  "DefaultConfig =
     \<lparr>BaseURL = ''https://business-api.tiktok.com'',
      AccessToken = [],
      ClientID = [],
      ClientSecret = [],
      Timeout = 30 * Second,
      RetryConfig = Some
        \<lparr>MaxRetries = 3,
         BackoffStrategy = ExponentialBackoff,
         InitialDelay = 1 * Second,
         MaxDelay = 30 * Second,
         Multiplier = Finite 2,
         RetryableStatusCodes = [429, 500, 502, 503, 504]\<rparr>,
      RateLimit = Some \<lparr>RequestsPerSecond = Finite 10, BurstSize = 20\<rparr>,
      UserAgent = ''tiktok-business-api-go-sdk/1.0.0'',
      Debug = False\<rparr>"

text \<open>
  \<open>Config.Validate\<close>: the checks in the order of the source, the first failing one
  returns; \<open>None\<close> is the nil error.
\<close>

definition Validate_RetryConfig :: "RetryConfig \<Rightarrow> go_error option" where
  "Validate_RetryConfig rc =
     (if MaxRetries rc < 0 then
        Some (ErrInvalidConfig ''RetryConfig.MaxRetries'' ''max retries cannot be negative'')
      else if sint (InitialDelay rc) \<le> 0 then
        Some (ErrInvalidConfig ''RetryConfig.InitialDelay'' ''initial delay must be positive'')
      else if sint (MaxDelay rc) \<le> 0 then
        Some (ErrInvalidConfig ''RetryConfig.MaxDelay'' ''max delay must be positive'')
      else if le_zero (Multiplier rc) then
        Some (ErrInvalidConfig ''RetryConfig.Multiplier'' ''multiplier must be positive'')
      else None)"

definition Validate_RateLimit :: "RateLimitConfig \<Rightarrow> go_error option" where
  "Validate_RateLimit rl =
     (if le_zero (RequestsPerSecond rl) then
        Some (ErrInvalidConfig ''RateLimit.RequestsPerSecond''
                ''requests per second must be positive'')
      else if BurstSize rl \<le> 0 then
        Some (ErrInvalidConfig ''RateLimit.BurstSize'' ''burst size must be positive'')
      else None)"

definition Validate :: "Config \<Rightarrow> go_error option" where
  "Validate c =
     (if BaseURL c = [] then
        Some (ErrInvalidConfig ''BaseURL'' ''base URL is required'')
      else if AccessToken c = [] \<and> (ClientID c = [] \<or> ClientSecret c = []) then
        Some (ErrInvalidConfig ''Authentication''
                ''either access token or client credentials are required'')
      else if sint (Timeout c) \<le> 0 then
        Some (ErrInvalidConfig ''Timeout'' ''timeout must be positive'')
      else
        (case (case RetryConfig c of None \<Rightarrow> None | Some rc \<Rightarrow> Validate_RetryConfig rc) of
           Some e \<Rightarrow> Some e
         | None \<Rightarrow> (case RateLimit c of None \<Rightarrow> None | Some rl \<Rightarrow> Validate_RateLimit rl)))"

section \<open>The client (package client)\<close>

subsection \<open>Construction\<close>

text \<open>
  The parts of \<open>http.Client\<close>, \<open>http.Transport\<close> and \<open>rate.Limiter\<close> that \<open>NewClient\<close>
  sets.  \<open>MinVersion\<close> is \<open>tls.VersionTLS12\<close>, the number \<open>0x0303\<close>.
\<close>

record Transport =
  MaxIdleConns :: int
  MaxIdleConnsPerHost :: int
  IdleConnTimeout :: Duration
  TLSHandshakeTimeout :: Duration
  MinVersion :: int
  InsecureSkipVerify :: bool

record HttpClient =
  http_Timeout :: Duration
  http_Transport :: Transport

record Limiter =
  limit :: float64
  burst :: int

text \<open>
  The service fields of \<open>Client\<close> only point back to the client and are left out.
  The parsed base URL is kept as text.
\<close>

record Client =
  config :: Config
  httpClient :: HttpClient
  rateLimiter :: "Limiter option"
  baseURL :: string

text \<open>
  \<open>NewClient\<close>.  \<open>url.Parse\<close> belongs to the standard library and is a parameter:
  \<open>url_Parse s\<close> is the error or the parsed URL.  A nil configuration is \<open>None\<close>.
\<close>

definition NewClient :: "(string \<Rightarrow> go_error + string) \<Rightarrow> Config option \<Rightarrow> go_error + Client" where
  "NewClient url_Parse config0 =
     (let cfg = (case config0 of None \<Rightarrow> DefaultConfig | Some c \<Rightarrow> c) in
      case Validate cfg of
        Some err \<Rightarrow> Inl (Errorf ''invalid config: %w'' [] (Some err))
      | None \<Rightarrow>
        (case url_Parse (BaseURL cfg) of
           Inl err \<Rightarrow> Inl (Errorf ''invalid base URL: %w'' [] (Some err))
         | Inr u \<Rightarrow>
             Inr \<lparr>config = cfg,
                  httpClient =
                    \<lparr>http_Timeout = Timeout cfg * Second,
                     http_Transport =
                       \<lparr>MaxIdleConns = 100,
                        MaxIdleConnsPerHost = 10,
                        IdleConnTimeout = 90 * Second,
                        TLSHandshakeTimeout = 10 * Second,
                        MinVersion = 771,
                        InsecureSkipVerify = False\<rparr>\<rparr>,
                  rateLimiter =
                    (case RateLimit cfg of
                       None \<Rightarrow> None
                     | Some rl \<Rightarrow> Some \<lparr>limit = RequestsPerSecond rl, burst = BurstSize rl\<rparr>),
                  baseURL = u\<rparr>))"

definition SetAccessToken :: "Client \<Rightarrow> string \<Rightarrow> Client" where
  "SetAccessToken c token = c\<lparr>config := (config c)\<lparr>AccessToken := token\<rparr>\<rparr>"

definition SetTimeout :: "Client \<Rightarrow> Duration \<Rightarrow> Client" where
  "SetTimeout c timeout =
     c\<lparr>config := (config c)\<lparr>Timeout := timeout\<rparr>,
       httpClient := (httpClient c)\<lparr>http_Timeout := timeout\<rparr>\<rparr>"

subsection \<open>Requests, responses and the world outside\<close>

text \<open>
  A request body is an \<open>io.Reader\<close>: \<open>None\<close> when nil, otherwise the bytes the reader
  has still to deliver.  The request object holds the reader, so a send that reads from it
  changes the request.  Header names are stored as they are given; the custom headers of a
  call are listed in the order in which \<open>range\<close> visits the map.
\<close>

record Request =
  Method :: string
  URL :: string
  Header :: "(string \<times> string) list"
  ReqBody :: "string option"

fun Header_Set :: "string \<Rightarrow> string \<Rightarrow> (string \<times> string) list \<Rightarrow> (string \<times> string) list" where
  "Header_Set k v [] = [(k, v)]"
| "Header_Set k v ((k', v') # h) =
     (if k' = k then (k, v) # h else (k', v') # Header_Set k v h)"

text \<open>
  A response body is an \<open>io.ReadCloser\<close>: the bytes it has still to deliver, the error
  that reading it to the end meets (if any), and how many times it has been closed.
\<close>

record BodyReader =
  data :: string
  read_err :: "go_error option"
  close_count :: nat

record Response =
  StatusCode :: int
  Status :: string
  Body :: BodyReader

definition ReadAll :: "BodyReader \<Rightarrow> (go_error + string) \<times> BodyReader" where
  "ReadAll b =
     (case read_err b of
        Some err \<Rightarrow> (Inl err, b\<lparr>data := []\<rparr>)
      | None \<Rightarrow> (Inr (data b), b\<lparr>data := []\<rparr>))"

definition Close :: "BodyReader \<Rightarrow> BodyReader" where
  "Close b = b\<lparr>close_count := close_count b + 1\<rparr>"

text \<open>
  What a logical call does to the world, in order: a token taken from the rate limiter,
  a request handed to \<open>httpClient.Do\<close> (one physical attempt, with the request as it was
  at that moment), a response body closed.
\<close>

datatype event = Acquired | Sent Request | Closed Response

fun tokens :: "event list \<Rightarrow> nat" where
  "tokens [] = 0"
| "tokens (Acquired # tr) = Suc (tokens tr)"
| "tokens (_ # tr) = tokens tr"

fun sends :: "event list \<Rightarrow> Request list" where
  "sends [] = []"
| "sends (Sent r # tr) = r # sends tr"
| "sends (_ # tr) = sends tr"

fun closes :: "event list \<Rightarrow> Response list" where
  "closes [] = []"
| "closes (Closed r # tr) = r # closes tr"
| "closes (_ # tr) = closes tr"

text \<open>
  The library calls of \<open>DoRequest\<close>, as the answers they give during one logical call
  (the context of the call acts through them):
  \<^item> \<open>Wait k\<close>: the result of the \<open>k\<close>-th call of \<open>rateLimiter.Wait(ctx)\<close>, \<open>None\<close> when
    a token was granted;
  \<^item> \<open>ResolveReference base endpoint\<close>: the text of the resolved URL;
  \<^item> \<open>NewRequestWithContext method url\<close>: the error of building the request, if any;
  \<^item> \<open>Do k req\<close>: the result of the \<open>k\<close>-th call of \<open>httpClient.Do\<close>, given the request
    handed to it, and the request as the send leaves it.
\<close>

record env =
  Wait :: "nat \<Rightarrow> go_error option"
  ResolveReference :: "string \<Rightarrow> string \<Rightarrow> string"
  NewRequestWithContext :: "string \<Rightarrow> string \<Rightarrow> go_error option"
  Do :: "nat \<Rightarrow> Request \<Rightarrow> (go_error + Response) \<times> Request"

subsection \<open>DoRequest\<close>

text \<open>\<open>shouldRetry\<close>: the loop over the retryable codes, then the choice of the list.\<close>

primrec code_listed :: "int \<Rightarrow> int list \<Rightarrow> bool" where
  "code_listed statusCode [] = False"
| "code_listed statusCode (code # codes) =
     (if statusCode = code then True else code_listed statusCode codes)"

definition retryableCodes :: "Client \<Rightarrow> int list" where
  "retryableCodes c =
     (case RetryConfig (config c) of
        None \<Rightarrow> [429, 500, 502, 503, 504]
      | Some rc \<Rightarrow>
          if length (RetryableStatusCodes rc) > 0 then RetryableStatusCodes rc
          else [429, 500, 502, 503, 504])"

definition shouldRetry :: "Client \<Rightarrow> int \<Rightarrow> bool" where
  "shouldRetry c statusCode = code_listed statusCode (retryableCodes c)"

text \<open>
  The attempt loop \<open>for attempt := 0; attempt <= maxRetries; attempt++\<close>, with the
  request, \<open>lastErr\<close> and the events so far as its state.  The \<open>attempt\<close>-th iteration
  makes the \<open>attempt\<close>-th call of \<open>Do\<close>.
\<close>

function retry_loop ::
  "env \<Rightarrow> Client \<Rightarrow> int \<Rightarrow> int \<Rightarrow> Request \<Rightarrow> go_error option \<Rightarrow> event list
     \<Rightarrow> (go_error + Response) \<times> event list" where
  "retry_loop E c maxRetries attempt req lastErr tr =
     (if attempt \<le> maxRetries then
        (let out = Do E (nat attempt) req; req' = snd out; tr' = tr @ [Sent req] in
         case fst out of
           Inl err \<Rightarrow> retry_loop E c maxRetries (attempt + 1) req' (Some err) tr'
         | Inr resp \<Rightarrow>
             if shouldRetry c (StatusCode resp) \<and> attempt < maxRetries then
               retry_loop E c maxRetries (attempt + 1) req'
                 (Some (Errorf ''HTTP %d: %s''
                          [ArgInt (StatusCode resp), ArgStr (Status resp)] None))
                 (tr' @ [Closed resp])
             else (Inr resp, tr'))
      else
        (Inl (Errorf ''request failed after %d attempts: %w''
                [ArgInt (maxRetries + 1)] lastErr), tr))"
  by pat_completeness auto
termination
  by (relation "measure (\<lambda>(E, c, maxRetries, attempt, req, lastErr, tr).
                   nat (maxRetries + 1 - attempt))") auto

definition default_headers :: "Client \<Rightarrow> (string \<times> string) list" where
  "default_headers c =
     (let h0 = Header_Set ''User-Agent'' (UserAgent (config c)) [];
          h1 = (if AccessToken (config c) \<noteq> []
                then Header_Set ''Access-Token'' (AccessToken (config c)) h0 else h0)
      in Header_Set ''Content-Type'' ''application/json'' h1)"

definition DoRequest ::
  "env \<Rightarrow> Client \<Rightarrow> string \<Rightarrow> string \<Rightarrow> string option \<Rightarrow> (string \<times> string) list
     \<Rightarrow> (go_error + Response) \<times> event list" where
  "DoRequest E c method endpoint body headers =
     (case (if rateLimiter c \<noteq> None then Wait E 0 else None) of
        Some err \<Rightarrow> (Inl (Errorf ''rate limit error: %w'' [] (Some err)), [])
      | None \<Rightarrow>
        (let tr0 = (if rateLimiter c \<noteq> None then [Acquired] else []);
             fullURL = ResolveReference E (baseURL c) endpoint
         in case NewRequestWithContext E method fullURL of
              Some err \<Rightarrow> (Inl (Errorf ''failed to create request: %w'' [] (Some err)), tr0)
            | None \<Rightarrow>
              (let req = \<lparr>Method = method, URL = fullURL,
                          Header = fold (\<lambda>(key, val). Header_Set key val) headers
                                     (default_headers c),
                          ReqBody = body\<rparr>;
                   maxRetries = (case RetryConfig (config c) of
                                   None \<Rightarrow> 3 | Some rc \<Rightarrow> MaxRetries rc)
               in retry_loop E c maxRetries 0 req None tr0)))"

text \<open>
  The requests that \<open>n\<close> consecutive calls of \<open>Do\<close>, the first of them the \<open>a\<close>-th,
  receive when each is handed the request as the one before left it.
\<close>

fun req_chain :: "env \<Rightarrow> nat \<Rightarrow> nat \<Rightarrow> Request \<Rightarrow> Request list" where
  "req_chain E a 0 req = []"
| "req_chain E a (Suc n) req = req # req_chain E (Suc a) n (snd (Do E a req))"

subsection \<open>ParseResponse\<close>

text \<open>
  \<open>json.Unmarshal\<close> belongs to the standard library; the two decoders are parameters:
  \<open>dec_err\<close> into an \<open>APIError\<close>, \<open>dec\<close> into the caller's target.  The field
  \<open>HTTPStatusCode\<close> carries the tag \<open>json:"-"\<close>, so decoding into the fresh
  \<open>var apiErr\<close> leaves it at zero.
\<close>

definition Unmarshal_APIError :: "(string \<Rightarrow> go_error + APIError) \<Rightarrow> string \<Rightarrow> go_error + APIError" where
  "Unmarshal_APIError dec_err body =
     (case dec_err body of Inl err \<Rightarrow> Inl err | Inr a \<Rightarrow> Inr (a\<lparr>HTTPStatusCode := 0\<rparr>))"

text \<open>
  The value \<open>ParseResponse\<close> returns: \<open>Inl\<close> the error, \<open>Inr\<close> the decoded target with
  the nil error.  It is computed from the status and the result of \<open>io.ReadAll\<close>.
\<close>

definition parse_result ::
  "(string \<Rightarrow> go_error + APIError) \<Rightarrow> (string \<Rightarrow> go_error + 'v) \<Rightarrow> int \<Rightarrow> go_error + string
     \<Rightarrow> go_error + 'v" where
  "parse_result dec_err dec statusCode rd =
     (case rd of
        Inl err \<Rightarrow> Inl (Errorf ''failed to read response body: %w'' [] (Some err))
      | Inr body \<Rightarrow>
          if statusCode \<ge> 400 then
            (case Unmarshal_APIError dec_err body of
               Inr apiErr \<Rightarrow>
                 if Code apiErr \<noteq> [] then Inl (APIErr apiErr)
                 else Inl (Errorf ''HTTP %d: %s'' [ArgInt statusCode, ArgStr body] None)
             | Inl err \<Rightarrow>
                 Inl (Errorf ''HTTP %d: %s'' [ArgInt statusCode, ArgStr body] None))
          else
            (case dec body of
               Inl err \<Rightarrow> Inl (Errorf ''failed to parse response: %w'' [] (Some err))
             | Inr v \<Rightarrow> Inr v))"

text \<open>
  \<open>ParseResponse\<close> returns the result and the response as it leaves it.  The deferred
  \<open>resp.Body.Close()\<close> runs when the function returns, after the result is fixed.
\<close>

definition ParseResponse ::
  "(string \<Rightarrow> go_error + APIError) \<Rightarrow> (string \<Rightarrow> go_error + 'v) \<Rightarrow> Response
     \<Rightarrow> (go_error + 'v) \<times> Response" where
  "ParseResponse dec_err dec resp =
     (let rd = ReadAll (Body resp);
          result = parse_result dec_err dec (StatusCode resp) (fst rd)
      in (result, resp\<lparr>Body := Close (snd rd)\<rparr>))"

section \<open>Concrete configurations, clients and transports\<close>

text \<open>A URL parser that accepts every text, and the valid configuration of the tests.\<close>

definition url_ok :: "string \<Rightarrow> go_error + string" where
  "url_ok s = Inr s"

definition test_config :: Config where
  "test_config =
     \<lparr>BaseURL = ''https://business-api.tiktok.com'',
      AccessToken = ''test_token'',
      ClientID = [],
      ClientSecret = [],
      Timeout = 30 * Second,
      RetryConfig = None,
      RateLimit = None,
      UserAgent = [],
      Debug = False\<rparr>"

text \<open>
  A client with a rate limiter, \<open>MaxRetries = 2\<close> and 503 as the only retryable status,
  written as \<open>NewClient\<close> builds it.
\<close>

definition retry2_config :: Config where
  "retry2_config =
     \<lparr>BaseURL = ''https://business-api.tiktok.com'',
      AccessToken = ''test_token'',
      ClientID = [],
      ClientSecret = [],
      Timeout = 30 * Second,
      RetryConfig = Some
        \<lparr>MaxRetries = 2,
         BackoffStrategy = ExponentialBackoff,
         InitialDelay = 1 * Second,
         MaxDelay = 30 * Second,
         Multiplier = Finite 2,
         RetryableStatusCodes = [503]\<rparr>,
      RateLimit = Some \<lparr>RequestsPerSecond = Finite 10, BurstSize = 20\<rparr>,
      UserAgent = ''tiktok-business-api-go-sdk/1.0.0'',
      Debug = False\<rparr>"

definition retry2_client :: Client where
  "retry2_client =
     \<lparr>config = retry2_config,
      httpClient =
        \<lparr>http_Timeout = 30 * Second * Second,
         http_Transport =
           \<lparr>MaxIdleConns = 100, MaxIdleConnsPerHost = 10, IdleConnTimeout = 90 * Second,
            TLSHandshakeTimeout = 10 * Second, MinVersion = 771, InsecureSkipVerify = False\<rparr>\<rparr>,
      rateLimiter = Some \<lparr>limit = Finite 10, burst = 20\<rparr>,
      baseURL = ''https://business-api.tiktok.com''\<rparr>"

text \<open>
  Three transports.  Each grants the token, builds the request and reads the request body
  to its end on every send.  The first refuses every connection; in the second the context
  is cancelled during the first send, so that send and every later one fail with the
  cancellation; the third answers 503, 503, 200.
\<close>

definition drained :: "Request \<Rightarrow> Request" where
  "drained r = r\<lparr>ReqBody := (case ReqBody r of None \<Rightarrow> None | Some b \<Rightarrow> Some [])\<rparr>"

definition refusing_env :: env where
  "refusing_env =
     \<lparr>Wait = (\<lambda>k. None),
      ResolveReference = (\<lambda>base endpoint. base @ endpoint),
      NewRequestWithContext = (\<lambda>method url. None),
      Do = (\<lambda>k r. (Inl (UrlError (External ''connection refused'')), drained r))\<rparr>"

definition cancelled_env :: env where
  "cancelled_env =
     \<lparr>Wait = (\<lambda>k. None),
      ResolveReference = (\<lambda>base endpoint. base @ endpoint),
      NewRequestWithContext = (\<lambda>method url. None),
      Do = (\<lambda>k r. (Inl (UrlError ContextCanceled), drained r))\<rparr>"

definition resp_503 :: Response where
  "resp_503 =
     \<lparr>StatusCode = 503, Status = ''503 Service Unavailable'',
      Body = \<lparr>data = ''busy'', read_err = None, close_count = 0\<rparr>\<rparr>"

definition resp_200 :: Response where
  "resp_200 =
     \<lparr>StatusCode = 200, Status = ''200 OK'',
      Body = \<lparr>data = ''{}'', read_err = None, close_count = 0\<rparr>\<rparr>"

definition flaky_env :: env where
  "flaky_env =
     \<lparr>Wait = (\<lambda>k. None),
      ResolveReference = (\<lambda>base endpoint. base @ endpoint),
      NewRequestWithContext = (\<lambda>method url. None),
      Do = (\<lambda>k r. (if k < 2 then Inr resp_503 else Inr resp_200, drained r))\<rparr>"

definition post_request :: "string option \<Rightarrow> Request" where
  "post_request body =
     \<lparr>Method = ''POST'',
      URL = ''https://business-api.tiktok.com/pixel/create/'',
      Header = [(''User-Agent'', ''tiktok-business-api-go-sdk/1.0.0''),
                (''Access-Token'', ''test_token''),
                (''Content-Type'', ''application/json'')],
      ReqBody = body\<rparr>"

text \<open>A limiter whose wait is cut short by the cancellation of the context.\<close>

definition wait_cancelled_env :: env where
  "wait_cancelled_env =
     \<lparr>Wait = (\<lambda>k. Some ContextCanceled),
      ResolveReference = (\<lambda>base endpoint. base @ endpoint),
      NewRequestWithContext = (\<lambda>method url. None),
      Do = (\<lambda>k r. (Inl (UrlError ContextCanceled), drained r))\<rparr>"

text \<open>
  Two decoders standing for \<open>json.Unmarshal\<close>, and three responses: a 429 whose body
  is an API error, a 500 whose body cannot be read to its end, a 200.
\<close>

definition dec_api_error :: "string \<Rightarrow> go_error + APIError" where
  "dec_api_error s =
     (if s = ''{code:RATE_LIMIT_EXCEEDED}'' then
        Inr \<lparr>Code = ''RATE_LIMIT_EXCEEDED'', Message = [], RequestID = [], Data = None,
             HTTPStatusCode = 0\<rparr>
      else Inl (External ''invalid character''))"

definition dec_text :: "string \<Rightarrow> go_error + string" where
  "dec_text s = (if s = [] then Inl (External ''unexpected end of JSON input'') else Inr s)"

definition resp_429 :: Response where
  "resp_429 =
     \<lparr>StatusCode = 429, Status = ''429 Too Many Requests'',
      Body = \<lparr>data = ''{code:RATE_LIMIT_EXCEEDED}'', read_err = None, close_count = 0\<rparr>\<rparr>"

definition resp_500_broken :: Response where
  "resp_500_broken =
     \<lparr>StatusCode = 500, Status = ''500 Internal Server Error'',
      Body = \<lparr>data = ''{code:RATE_LIMIT_EXCEEDED}'', read_err = Some (External ''unexpected EOF''),
              close_count = 0\<rparr>\<rparr>"

section \<open>Facts about the attempt loop\<close>

declare retry_loop.simps [simp del]

lemma code_listed_iff: "code_listed s cs = (s \<in> set cs)"
  by (induction cs) auto

lemma tokens_append: "tokens (xs @ ys) = tokens xs + tokens ys"
  by (induction xs rule: tokens.induct) auto

lemma sends_append: "sends (xs @ ys) = sends xs @ sends ys"
  by (induction xs rule: sends.induct) auto


lemma retry_loop_exit:
  "\<not> a \<le> m \<Longrightarrow> retry_loop E c m a req l tr =
     (Inl (Errorf ''request failed after %d attempts: %w'' [ArgInt (m + 1)] l), tr)"
  by (simp add: retry_loop.simps [of E c m a])

lemma retry_loop_send_error:
  "a \<le> m \<Longrightarrow> fst (Do E (nat a) req) = Inl err \<Longrightarrow>
   retry_loop E c m a req l tr =
     retry_loop E c m (a + 1) (snd (Do E (nat a) req)) (Some err) (tr @ [Sent req])"
  by (simp add: retry_loop.simps [of E c m a] Let_def)

lemma retry_loop_retry_status:
  "a < m \<Longrightarrow> fst (Do E (nat a) req) = Inr resp \<Longrightarrow> shouldRetry c (StatusCode resp) \<Longrightarrow>
   retry_loop E c m a req l tr =
     retry_loop E c m (a + 1) (snd (Do E (nat a) req))
       (Some (Errorf ''HTTP %d: %s'' [ArgInt (StatusCode resp), ArgStr (Status resp)] None))
       (tr @ [Sent req, Closed resp])"
  by (simp add: retry_loop.simps [of E c m a] Let_def)

lemma retry_loop_return:
  "a \<le> m \<Longrightarrow> fst (Do E (nat a) req) = Inr resp \<Longrightarrow>
   \<not> (shouldRetry c (StatusCode resp) \<and> a < m) \<Longrightarrow>
   retry_loop E c m a req l tr = (Inr resp, tr @ [Sent req])"
  by (subst retry_loop.simps) (auto simp add: Let_def)

lemma retry_loop_sends:
  "0 \<le> a \<Longrightarrow>
   \<exists>n. sends (snd (retry_loop E c m a req l tr)) = sends tr @ req_chain E (nat a) n req
       \<and> int n \<le> max 0 (m + 1 - a) \<and> (a \<le> m \<longrightarrow> 0 < n)"
proof (induction E c m a req l tr rule: retry_loop.induct)
  case (1 E c m a req l tr)
  have nat_suc: "nat (a + 1) = Suc (nat a)" using "1.prems" by simp
  show ?case
  proof (cases "a \<le> m")
    case False
    then have "sends (snd (retry_loop E c m a req l tr)) = sends tr @ req_chain E (nat a) 0 req"
      by (simp add: retry_loop_exit)
    with False show ?thesis by (intro exI [of _ 0]) simp
  next
    case True
    show ?thesis
    proof (cases "fst (Do E (nat a) req)")
      case (Inl err)
      from "1.IH"(1) [OF True refl refl refl Inl] "1.prems"
      obtain n where n: "sends (snd (retry_loop E c m (a + 1) (snd (Do E (nat a) req)) (Some err)
                              (tr @ [Sent req])))
                         = sends (tr @ [Sent req]) @ req_chain E (nat (a + 1)) n (snd (Do E (nat a) req))"
        and le: "int n \<le> max 0 (m + 1 - (a + 1))"
        by auto
      have "sends (snd (retry_loop E c m a req l tr)) = sends tr @ req_chain E (nat a) (Suc n) req"
        using n by (simp add: retry_loop_send_error [OF True Inl] sends_append nat_suc)
      moreover have "int (Suc n) \<le> max 0 (m + 1 - a)" using le True by simp
      ultimately show ?thesis by (intro exI [of _ "Suc n"]) simp
    next
      case (Inr resp)
      show ?thesis
      proof (cases "shouldRetry c (StatusCode resp) \<and> a < m")
        case go: True
        from "1.IH"(2) [OF True refl refl refl Inr go] "1.prems"
        obtain n where n: "sends (snd (retry_loop E c m (a + 1) (snd (Do E (nat a) req))
                 (Some (Errorf ''HTTP %d: %s'' [ArgInt (StatusCode resp), ArgStr (Status resp)] None))
                 ((tr @ [Sent req]) @ [Closed resp])))
               = sends ((tr @ [Sent req]) @ [Closed resp])
                   @ req_chain E (nat (a + 1)) n (snd (Do E (nat a) req))"
          and le: "int n \<le> max 0 (m + 1 - (a + 1))"
          by auto
        have "sends (snd (retry_loop E c m a req l tr)) = sends tr @ req_chain E (nat a) (Suc n) req"
          using n go by (simp add: retry_loop_retry_status [OF _ Inr] sends_append nat_suc)
        moreover have "int (Suc n) \<le> max 0 (m + 1 - a)" using le True by simp
        ultimately show ?thesis by (intro exI [of _ "Suc n"]) simp
      next
        case False
        have "sends (snd (retry_loop E c m a req l tr)) = sends tr @ req_chain E (nat a) (Suc 0) req"
          by (simp add: retry_loop_return [OF True Inr False] sends_append)
        moreover have "int (Suc 0) \<le> max 0 (m + 1 - a)" using True by simp
        ultimately show ?thesis by (intro exI [of _ "Suc 0"]) simp
      qed
    qed
  qed
qed




lemma retry_loop_trace:
  "\<exists>rest. snd (retry_loop E c m a req l tr) = tr @ rest \<and> tokens rest = 0"
proof (induction E c m a req l tr rule: retry_loop.induct)
  case (1 E c m a req l tr)
  show ?case
  proof (cases "a \<le> m")
    case False
    then show ?thesis by (simp add: retry_loop_exit)
  next
    case True
    show ?thesis
    proof (cases "fst (Do E (nat a) req)")
      case (Inl err)
      from "1.IH"(1) [OF True refl refl refl Inl] obtain rest where
        "snd (retry_loop E c m (a + 1) (snd (Do E (nat a) req)) (Some err) (tr @ [Sent req]))
           = (tr @ [Sent req]) @ rest" and "tokens rest = 0"
        by blast
      then show ?thesis
        by (intro exI [of _ "Sent req # rest"]) (simp add: retry_loop_send_error [OF True Inl])
    next
      case (Inr resp)
      show ?thesis
      proof (cases "shouldRetry c (StatusCode resp) \<and> a < m")
        case go: True
        from "1.IH"(2) [OF True refl refl refl Inr go] obtain rest where
          "snd (retry_loop E c m (a + 1) (snd (Do E (nat a) req))
                 (Some (Errorf ''HTTP %d: %s'' [ArgInt (StatusCode resp), ArgStr (Status resp)] None))
                 ((tr @ [Sent req]) @ [Closed resp]))
             = ((tr @ [Sent req]) @ [Closed resp]) @ rest" and "tokens rest = 0"
          by blast
        then show ?thesis using go
          by (intro exI [of _ "Sent req # Closed resp # rest"])
             (simp add: retry_loop_retry_status [OF _ Inr])
      next
        case False
        show ?thesis
          by (intro exI [of _ "[Sent req]"]) (simp add: retry_loop_return [OF True Inr False])
      qed
    qed
  qed
qed

lemma tokens_tl: "tokens (tl tr) \<le> tokens tr"
  by (induction tr rule: tokens.induct) auto


lemmas run_defs =
  DoRequest_def default_headers_def retry_loop.simps drained_def post_request_def Let_def
  retry2_client_def retry2_config_def refusing_env_def cancelled_env_def flaky_env_def
  wait_cancelled_env_def resp_503_def resp_200_def retryableCodes_def shouldRetry_def

lemma length_req_chain: "length (req_chain E a n req) = n"
  by (induction n arbitrary: a req) auto






section \<open>The request executor\<close>

text \<open>
  C1 (as stated it fails).  With two retries configured and a transport that refuses every
  connection, the call makes three physical attempts and takes one token.
\<close>

theorem token_per_attempt_counterexample:
  "length (sends (snd (DoRequest refusing_env retry2_client ''POST'' ''/pixel/create/''
                        (Some ''{x}'') []))) = 3 \<and>
   tokens (snd (DoRequest refusing_env retry2_client ''POST'' ''/pixel/create/''
                  (Some ''{x}'') [])) = 1"
  by (simp add: run_defs)

text \<open>
  C1 (amended).  A logical call takes a token from the rate limiter at most once: one
  token when a limiter is configured and its wait succeeds, none otherwise, however many
  physical attempts follow.  No token is taken after the first event of the call, so no
  retry acquires admission again.
\<close>

theorem one_token_per_logical_call:
  "tokens (snd (DoRequest E c method endpoint body headers)) =
     (if rateLimiter c \<noteq> None \<and> Wait E 0 = None then 1 else 0) \<and>
   tokens (tl (snd (DoRequest E c method endpoint body headers))) = 0"
proof -
  have with_token: "tokens (snd (retry_loop E c m 0 req None [Acquired])) = 1 \<and>
                    tokens (tl (snd (retry_loop E c m 0 req None [Acquired]))) = 0" for m req
  proof -
    obtain rest where "snd (retry_loop E c m 0 req None [Acquired]) = [Acquired] @ rest"
      and "tokens rest = 0"
      using retry_loop_trace by blast
    then show ?thesis by simp
  qed
  have without: "tokens (snd (retry_loop E c m 0 req None [])) = 0 \<and>
                 tokens (tl (snd (retry_loop E c m 0 req None []))) = 0" for m req
  proof -
    obtain rest where "snd (retry_loop E c m 0 req None []) = [] @ rest" and "tokens rest = 0"
      using retry_loop_trace by blast
    moreover have "tokens (tl rest) \<le> tokens rest" by (rule tokens_tl)
    ultimately show ?thesis by simp
  qed
  show ?thesis
    by (auto simp add: DoRequest_def Let_def with_token without split: option.splits)
qed

theorem one_token_per_logical_call_witness:
  "tokens (snd (DoRequest flaky_env retry2_client ''POST'' ''/pixel/create/'' (Some ''{x}'') []))
     = 1 \<and>
   tokens (tl (snd (DoRequest flaky_env retry2_client ''POST'' ''/pixel/create/''
                      (Some ''{x}'') []))) = 0 \<and>
   length (sends (snd (DoRequest flaky_env retry2_client ''POST'' ''/pixel/create/''
                         (Some ''{x}'') []))) = 3"
  using one_token_per_logical_call
          [of flaky_env retry2_client "''POST''" "''/pixel/create/''" "Some ''{x}''" "[]"]
  by (simp add: run_defs)







text \<open>
  C4.  A response has been received at attempt \<open>a\<close>.  When its status is in the
  retryable list and an attempt remains, the loop closes the body of the response, records
  the error "HTTP <code>: <status>" and goes on with attempt \<open>a + 1\<close>, so that at least
  one more send follows.  When its status is not in the list, the response is returned
  as it is after this one send, whatever number of attempts remains.  The list is
  429, 500, 502, 503, 504 when there is no retry configuration or its list of codes is
  empty, and the configured list otherwise.
\<close>

theorem retry_decided_by_status:
  assumes "0 \<le> a" and "a \<le> m" and "fst (Do E (nat a) req) = Inr resp"
  shows "(StatusCode resp \<in> set (retryableCodes c) \<and> a < m \<longrightarrow>
            retry_loop E c m a req l tr =
              retry_loop E c m (a + 1) (snd (Do E (nat a) req))
                (Some (Errorf ''HTTP %d: %s''
                         [ArgInt (StatusCode resp), ArgStr (Status resp)] None))
                (tr @ [Sent req, Closed resp]) \<and>
            length (sends tr) + 2 \<le> length (sends (snd (retry_loop E c m a req l tr)))) \<and>
         (StatusCode resp \<notin> set (retryableCodes c) \<longrightarrow>
            retry_loop E c m a req l tr = (Inr resp, tr @ [Sent req])) \<and>
         (RetryConfig (config c) = None \<or>
          (\<exists>rc. RetryConfig (config c) = Some rc \<and> RetryableStatusCodes rc = []) \<longrightarrow>
            set (retryableCodes c) = {429, 500, 502, 503, 504}) \<and>
         (\<forall>rc. RetryConfig (config c) = Some rc \<and> RetryableStatusCodes rc \<noteq> [] \<longrightarrow>
            retryableCodes c = RetryableStatusCodes rc)"
proof (intro conjI impI allI)
  assume go: "StatusCode resp \<in> set (retryableCodes c) \<and> a < m"
  then have sr: "shouldRetry c (StatusCode resp)" and lt: "a < m"
    by (simp_all add: shouldRetry_def code_listed_iff)
  show step: "retry_loop E c m a req l tr =
      retry_loop E c m (a + 1) (snd (Do E (nat a) req))
        (Some (Errorf ''HTTP %d: %s'' [ArgInt (StatusCode resp), ArgStr (Status resp)] None))
        (tr @ [Sent req, Closed resp])"
    using lt assms(3) sr by (rule retry_loop_retry_status)
  have "0 \<le> a + 1" using assms(1) by simp
  from retry_loop_sends [OF this, of E c m "snd (Do E (nat a) req)" _ "tr @ [Sent req, Closed resp]"]
  obtain n where "sends (snd (retry_loop E c m (a + 1) (snd (Do E (nat a) req))
        (Some (Errorf ''HTTP %d: %s'' [ArgInt (StatusCode resp), ArgStr (Status resp)] None))
        (tr @ [Sent req, Closed resp])))
      = sends (tr @ [Sent req, Closed resp]) @ req_chain E (nat (a + 1)) n (snd (Do E (nat a) req))"
    and "a + 1 \<le> m \<longrightarrow> 0 < n"
    by blast
  with lt show "length (sends tr) + 2 \<le> length (sends (snd (retry_loop E c m a req l tr)))"
    unfolding step by (simp add: sends_append length_req_chain)
next
  assume "StatusCode resp \<notin> set (retryableCodes c)"
  then have "\<not> (shouldRetry c (StatusCode resp) \<and> a < m)"
    by (simp add: shouldRetry_def code_listed_iff)
  with assms(2,3) show "retry_loop E c m a req l tr = (Inr resp, tr @ [Sent req])"
    by (rule retry_loop_return)
next
  assume "RetryConfig (config c) = None \<or>
          (\<exists>rc. RetryConfig (config c) = Some rc \<and> RetryableStatusCodes rc = [])"
  then show "set (retryableCodes c) = {429, 500, 502, 503, 504}"
    by (auto simp add: retryableCodes_def)
next
  fix rc
  assume "RetryConfig (config c) = Some rc \<and> RetryableStatusCodes rc \<noteq> []"
  then show "retryableCodes c = RetryableStatusCodes rc"
    by (simp add: retryableCodes_def)
qed

theorem retry_decided_by_status_witness:
  "(0::int) \<le> 0 \<and> (0::int) \<le> 2 \<and>
   fst (Do flaky_env (nat 0) (post_request (Some ''{x}''))) = Inr resp_503 \<and>
   StatusCode resp_503 \<in> set (retryableCodes retry2_client) \<and>
   fst (Do flaky_env (nat 2) (post_request (Some []))) = Inr resp_200 \<and>
   StatusCode resp_200 \<notin> set (retryableCodes retry2_client) \<and>
   retry_loop flaky_env retry2_client 2 0 (post_request (Some ''{x}'')) None [] =
     (Inr resp_200,
      [Sent (post_request (Some ''{x}'')), Closed resp_503,
       Sent (post_request (Some [])), Closed resp_503,
       Sent (post_request (Some []))]) \<and>
   closes (snd (retry_loop flaky_env retry2_client 2 0 (post_request (Some ''{x}'')) None [])) =
     [resp_503, resp_503]"
  using retry_decided_by_status
          [of 0 2 flaky_env "post_request (Some ''{x}'')" resp_503 retry2_client None "[]"]
        retry_decided_by_status
          [of 2 2 flaky_env "post_request (Some [])" resp_200 retry2_client
              "Some (Errorf ''HTTP %d: %s'' [ArgInt 503, ArgStr ''503 Service Unavailable''] None)"
              "[Sent (post_request (Some ''{x}'')), Closed resp_503,
                Sent (post_request (Some [])), Closed resp_503]"]
  by (simp add: run_defs)



section \<open>Parsing a response\<close>

lemmas parse_defs =
  ParseResponse_def parse_result_def ReadAll_def Close_def Unmarshal_APIError_def Let_def

text \<open>
  C5 (as stated it fails).  A response with status 500 whose body cannot be read to its
  end: \<open>ParseResponse\<close> returns the read error, which is neither a structured API error
  nor the generic error carrying the status and the body text.
\<close>

theorem unreadable_body_counterexample:
  "fst (ParseResponse dec_api_error dec_text resp_500_broken) =
     Inl (Errorf ''failed to read response body: %w'' [] (Some (External ''unexpected EOF'')))"
  by (simp add: parse_defs resp_500_broken_def)

text \<open>
  C5 (amended).  When reading the body fails, \<open>ParseResponse\<close> returns the error
  "failed to read response body" wrapping the read error, whatever the status is.  When the
  body is read to its end: for a status of 400 or more it returns the decoded API error
  exactly when the body decodes as an API error with a non-empty code, and otherwise the
  generic error carrying the status and the body text; for a status below 400 it returns
  the body decoded into the target, or, when decoding fails, the error
  "failed to parse response", which is not an API error.
\<close>

theorem parse_response_result:
  "(\<forall>e. read_err (Body resp) = Some e \<longrightarrow>
        fst (ParseResponse dec_err dec resp) =
          Inl (Errorf ''failed to read response body: %w'' [] (Some e))) \<and>
   (read_err (Body resp) = None \<and> 400 \<le> StatusCode resp \<longrightarrow>
      ((\<exists>a. fst (ParseResponse dec_err dec resp) = Inl (APIErr a)) \<longleftrightarrow>
       (\<exists>a. dec_err (data (Body resp)) = Inr a \<and> Code a \<noteq> [])) \<and>
      (\<forall>a. dec_err (data (Body resp)) = Inr a \<and> Code a \<noteq> [] \<longrightarrow>
         fst (ParseResponse dec_err dec resp) = Inl (APIErr (a\<lparr>HTTPStatusCode := 0\<rparr>))) \<and>
      (\<not> (\<exists>a. dec_err (data (Body resp)) = Inr a \<and> Code a \<noteq> []) \<longrightarrow>
         fst (ParseResponse dec_err dec resp) =
           Inl (Errorf ''HTTP %d: %s''
                  [ArgInt (StatusCode resp), ArgStr (data (Body resp))] None))) \<and>
   (read_err (Body resp) = None \<and> StatusCode resp < 400 \<longrightarrow>
      (\<forall>v. dec (data (Body resp)) = Inr v \<longrightarrow> fst (ParseResponse dec_err dec resp) = Inr v) \<and>
      (\<forall>e. dec (data (Body resp)) = Inl e \<longrightarrow>
         fst (ParseResponse dec_err dec resp) =
           Inl (Errorf ''failed to parse response: %w'' [] (Some e)) \<and>
         (\<forall>a. fst (ParseResponse dec_err dec resp) \<noteq> Inl (APIErr a))))"
proof (intro conjI impI allI)
  fix e assume "read_err (Body resp) = Some e"
  then show "fst (ParseResponse dec_err dec resp) =
          Inl (Errorf ''failed to read response body: %w'' [] (Some e))"
    by (simp add: parse_defs)
next
  assume h: "read_err (Body resp) = None \<and> 400 \<le> StatusCode resp"
  show "(\<exists>a. fst (ParseResponse dec_err dec resp) = Inl (APIErr a)) \<longleftrightarrow>
        (\<exists>a. dec_err (data (Body resp)) = Inr a \<and> Code a \<noteq> [])"
    using h by (cases "dec_err (data (Body resp))") (auto simp add: parse_defs)
next
  fix a
  assume "read_err (Body resp) = None \<and> 400 \<le> StatusCode resp"
    and "dec_err (data (Body resp)) = Inr a \<and> Code a \<noteq> []"
  then show "fst (ParseResponse dec_err dec resp) = Inl (APIErr (a\<lparr>HTTPStatusCode := 0\<rparr>))"
    by (simp add: parse_defs)
next
  assume "read_err (Body resp) = None \<and> 400 \<le> StatusCode resp"
    and "\<not> (\<exists>a. dec_err (data (Body resp)) = Inr a \<and> Code a \<noteq> [])"
  then show "fst (ParseResponse dec_err dec resp) =
           Inl (Errorf ''HTTP %d: %s'' [ArgInt (StatusCode resp), ArgStr (data (Body resp))] None)"
    by (cases "dec_err (data (Body resp))") (auto simp add: parse_defs)
next
  fix v
  assume "read_err (Body resp) = None \<and> StatusCode resp < 400"
    and "dec (data (Body resp)) = Inr v"
  then show "fst (ParseResponse dec_err dec resp) = Inr v"
    by (simp add: parse_defs)
next
  fix e
  assume h: "read_err (Body resp) = None \<and> StatusCode resp < 400"
    and d: "dec (data (Body resp)) = Inl e"
  then show r: "fst (ParseResponse dec_err dec resp) =
           Inl (Errorf ''failed to parse response: %w'' [] (Some e))"
    by (simp add: parse_defs)
  fix a
  show "fst (ParseResponse dec_err dec resp) \<noteq> Inl (APIErr a)"
    unfolding r by simp
qed

theorem parse_response_result_witness:
  "read_err (Body resp_429) = None \<and> 400 \<le> StatusCode resp_429 \<and>
   fst (ParseResponse dec_api_error dec_text resp_429) =
     Inl (APIErr \<lparr>Code = ''RATE_LIMIT_EXCEEDED'', Message = [], RequestID = [], Data = None,
                 HTTPStatusCode = 0\<rparr>) \<and>
   read_err (Body resp_503) = None \<and> 400 \<le> StatusCode resp_503 \<and>
   fst (ParseResponse dec_api_error dec_text resp_503) =
     Inl (Errorf ''HTTP %d: %s'' [ArgInt 503, ArgStr ''busy''] None) \<and>
   read_err (Body resp_200) = None \<and> StatusCode resp_200 < 400 \<and>
   fst (ParseResponse dec_api_error dec_text resp_200) = Inr ''{}'' \<and>
   read_err (Body resp_500_broken) = Some (External ''unexpected EOF'') \<and>
   fst (ParseResponse dec_api_error dec_text resp_500_broken) =
     Inl (Errorf ''failed to read response body: %w'' [] (Some (External ''unexpected EOF'')))"
  using parse_response_result [of resp_429 dec_api_error dec_text]
        parse_response_result [of resp_503 dec_api_error dec_text]
        parse_response_result [of resp_200 dec_api_error dec_text]
        parse_response_result [of resp_500_broken dec_api_error dec_text]
  by (simp add: resp_429_def resp_503_def resp_200_def resp_500_broken_def dec_api_error_def
        dec_text_def)

text \<open>
  C6.  Whatever the status, the outcome of reading the body and the outcome of decoding,
  the response that \<open>ParseResponse\<close> leaves has had its body closed exactly once more
  than the response it was given.
\<close>

theorem body_closed_exactly_once:
  "close_count (Body (snd (ParseResponse dec_err dec resp))) = close_count (Body resp) + 1"
  by (simp add: parse_defs split: option.splits)

theorem body_closed_exactly_once_witness:
  "close_count (Body resp_500_broken) = 0 \<and>
   close_count (Body (snd (ParseResponse dec_api_error dec_text resp_500_broken))) = 1 \<and>
   close_count (Body (snd (ParseResponse dec_api_error dec_text resp_429))) = 1 \<and>
   close_count (Body (snd (ParseResponse dec_api_error dec_text resp_200))) = 1"
  using body_closed_exactly_once [of dec_api_error dec_text resp_500_broken]
        body_closed_exactly_once [of dec_api_error dec_text resp_429]
        body_closed_exactly_once [of dec_api_error dec_text resp_200]
  by (simp add: resp_500_broken_def resp_429_def resp_200_def)

section \<open>Constructing a client\<close>

text \<open>
  C7 (the code differs).  \<open>NewClient\<close> multiplies the configured duration by
  \<open>time.Second\<close> once more.  For the configuration of the tests, with a timeout of 30
  seconds, the product wraps around in 64 bits and the client gets a negative timeout.
\<close>

theorem NewClient_timeout_is_scaled:
  "\<not> isl (NewClient url_ok (Some test_config)) \<and>
   sint (Timeout test_config) = 30000000000 \<and>
   http_Timeout (httpClient (projr (NewClient url_ok (Some test_config)))) =
     Timeout test_config * Second \<and>
   sint (http_Timeout (httpClient (projr (NewClient url_ok (Some test_config))))) =
     - 6893488147419103232"
  by (simp add: NewClient_def Validate_def test_config_def url_ok_def Second_def)

lemma NewClient_timeout:
  "NewClient url_Parse cfg0 = Inr cl \<Longrightarrow>
   http_Timeout (httpClient cl) = Timeout (config cl) * Second"
  by (auto simp add: NewClient_def Let_def split: option.splits sum.splits)

lemma SetTimeout_timeout:
  "http_Timeout (httpClient (SetTimeout cl t)) = t \<and> Timeout (config (SetTimeout cl t)) = t"
  by (simp add: SetTimeout_def)

lemma Validate_RetryConfig_invalid:
  "MaxRetries rc < 0 \<or> sint (InitialDelay rc) \<le> 0 \<or> sint (MaxDelay rc) \<le> 0 \<or>
   le_zero (Multiplier rc) \<Longrightarrow>
   \<exists>field msg. Validate_RetryConfig rc = Some (ErrInvalidConfig field msg)"
  by (auto simp add: Validate_RetryConfig_def)

lemma Validate_RateLimit_invalid:
  "le_zero (RequestsPerSecond rl) \<or> BurstSize rl \<le> 0 \<Longrightarrow>
   \<exists>field msg. Validate_RateLimit rl = Some (ErrInvalidConfig field msg)"
  by (auto simp add: Validate_RateLimit_def)

lemma Validate_RetryConfig_shape:
  "Validate_RetryConfig rc = Some e \<Longrightarrow> \<exists>field msg. e = ErrInvalidConfig field msg"
  by (auto simp add: Validate_RetryConfig_def split: if_splits)

lemma Validate_invalid:
  assumes "BaseURL cfg = [] \<or>
           (AccessToken cfg = [] \<and> (ClientID cfg = [] \<or> ClientSecret cfg = [])) \<or>
           sint (Timeout cfg) \<le> 0 \<or>
           (\<exists>rc. RetryConfig cfg = Some rc \<and>
                 (MaxRetries rc < 0 \<or> sint (InitialDelay rc) \<le> 0 \<or> sint (MaxDelay rc) \<le> 0 \<or>
                  le_zero (Multiplier rc))) \<or>
           (\<exists>rl. RateLimit cfg = Some rl \<and> (le_zero (RequestsPerSecond rl) \<or> BurstSize rl \<le> 0))"
  shows "\<exists>field msg. Validate cfg = Some (ErrInvalidConfig field msg)"
proof (cases "BaseURL cfg = [] \<or>
           (AccessToken cfg = [] \<and> (ClientID cfg = [] \<or> ClientSecret cfg = [])) \<or>
           sint (Timeout cfg) \<le> 0")
  case True
  then show ?thesis by (auto simp add: Validate_def)
next
  case False
  then have rest: "Validate cfg =
      (case (case RetryConfig cfg of None \<Rightarrow> None | Some rc \<Rightarrow> Validate_RetryConfig rc) of
         Some e \<Rightarrow> Some e
       | None \<Rightarrow> (case RateLimit cfg of None \<Rightarrow> None | Some rl \<Rightarrow> Validate_RateLimit rl))"
    by (auto simp add: Validate_def)
  from False assms consider
      (retry) rc where "RetryConfig cfg = Some rc"
        "MaxRetries rc < 0 \<or> sint (InitialDelay rc) \<le> 0 \<or> sint (MaxDelay rc) \<le> 0 \<or>
         le_zero (Multiplier rc)"
    | (rate) rl where "RateLimit cfg = Some rl" "le_zero (RequestsPerSecond rl) \<or> BurstSize rl \<le> 0"
    by blast
  then show ?thesis
  proof cases
    case retry
    from Validate_RetryConfig_invalid [OF retry(2)] retry(1) show ?thesis
      by (auto simp add: rest)
  next
    case rate
    from Validate_RateLimit_invalid [OF rate(2)] obtain field msg where
      rl: "Validate_RateLimit rl = Some (ErrInvalidConfig field msg)" by blast
    show ?thesis
    proof (cases "case RetryConfig cfg of None \<Rightarrow> None | Some rc \<Rightarrow> Validate_RetryConfig rc")
      case None
      with rl rate(1) show ?thesis by (simp add: rest)
    next
      case (Some e)
      then obtain rc where "RetryConfig cfg = Some rc" "Validate_RetryConfig rc = Some e"
        by (auto split: option.splits)
      with Validate_RetryConfig_shape [of rc e] Some show ?thesis
        by (auto simp add: rest)
    qed
  qed
qed

text \<open>
  C8.  A configuration with an empty base URL, or with no access token and a client id or
  client secret missing, or with a timeout that is not positive, or with a retry
  configuration whose maximum of retries is negative or whose initial delay, maximum delay
  or multiplier is not positive, or with a rate limit whose rate or burst size is not
  positive, makes \<open>NewClient\<close> return the error "invalid config" wrapping an
  \<open>ErrInvalidConfig\<close>, and no client.  So does the nil configuration: the default
  configuration that replaces it has no credential.
\<close>

theorem invalid_config_is_rejected:
  assumes "BaseURL cfg = [] \<or>
           (AccessToken cfg = [] \<and> (ClientID cfg = [] \<or> ClientSecret cfg = [])) \<or>
           sint (Timeout cfg) \<le> 0 \<or>
           (\<exists>rc. RetryConfig cfg = Some rc \<and>
                 (MaxRetries rc < 0 \<or> sint (InitialDelay rc) \<le> 0 \<or> sint (MaxDelay rc) \<le> 0 \<or>
                  le_zero (Multiplier rc))) \<or>
           (\<exists>rl. RateLimit cfg = Some rl \<and> (le_zero (RequestsPerSecond rl) \<or> BurstSize rl \<le> 0))"
  shows "(\<exists>field msg. NewClient url_Parse (Some cfg) =
            Inl (Errorf ''invalid config: %w'' [] (Some (ErrInvalidConfig field msg)))) \<and>
         NewClient url_Parse None =
            Inl (Errorf ''invalid config: %w'' []
                   (Some (ErrInvalidConfig ''Authentication''
                            ''either access token or client credentials are required'')))"
proof
  from Validate_invalid [OF assms] obtain field msg where
    "Validate cfg = Some (ErrInvalidConfig field msg)" by blast
  then show "\<exists>field msg. NewClient url_Parse (Some cfg) =
            Inl (Errorf ''invalid config: %w'' [] (Some (ErrInvalidConfig field msg)))"
    by (simp add: NewClient_def)
  show "NewClient url_Parse None =
            Inl (Errorf ''invalid config: %w'' []
                   (Some (ErrInvalidConfig ''Authentication''
                            ''either access token or client credentials are required'')))"
    by (simp add: NewClient_def DefaultConfig_def Validate_def)
qed

theorem invalid_config_is_rejected_witness:
  "sint (Timeout (test_config\<lparr>Timeout := 0\<rparr>)) \<le> 0 \<and>
   NewClient url_ok (Some (test_config\<lparr>Timeout := 0\<rparr>)) =
     Inl (Errorf ''invalid config: %w'' []
            (Some (ErrInvalidConfig ''Timeout'' ''timeout must be positive''))) \<and>
   NewClient url_ok None =
     Inl (Errorf ''invalid config: %w'' []
            (Some (ErrInvalidConfig ''Authentication''
                     ''either access token or client credentials are required'')))"
  using invalid_config_is_rejected [of "test_config\<lparr>Timeout := 0\<rparr>" url_ok]
  by (simp add: NewClient_def Validate_def test_config_def)

section \<open>Classification of API errors\<close>

text \<open>
  C9.  An API error whose code is RATE_LIMIT_EXCEEDED is retryable and is a rate-limit
  failure whatever its HTTP status is; an API error whose code is INVALID_PARAMETER is a
  validation failure.
\<close>

theorem rate_limit_and_validation_codes:
  "(Code e = ''RATE_LIMIT_EXCEEDED'' \<longrightarrow> IsRetryable e \<and> IsRateLimitError e) \<and>
   (Code e = ''INVALID_PARAMETER'' \<longrightarrow> IsValidationError e)"
  by (simp add: IsRetryable_def IsRateLimitError_def IsValidationError_def)

theorem rate_limit_and_validation_codes_witness:
  "Code \<lparr>Code = ''RATE_LIMIT_EXCEEDED'', Message = ''slow down'', RequestID = ''r1'',
         Data = None, HTTPStatusCode = 200\<rparr> = ''RATE_LIMIT_EXCEEDED'' \<and>
   IsRetryable \<lparr>Code = ''RATE_LIMIT_EXCEEDED'', Message = ''slow down'', RequestID = ''r1'',
         Data = None, HTTPStatusCode = 200\<rparr> \<and>
   IsRateLimitError \<lparr>Code = ''RATE_LIMIT_EXCEEDED'', Message = ''slow down'',
         RequestID = ''r1'', Data = None, HTTPStatusCode = 200\<rparr> \<and>
   Code \<lparr>Code = ''INVALID_PARAMETER'', Message = ''bad field'', RequestID = '''',
         Data = None, HTTPStatusCode = 200\<rparr> = ''INVALID_PARAMETER'' \<and>
   IsValidationError \<lparr>Code = ''INVALID_PARAMETER'', Message = ''bad field'', RequestID = '''',
         Data = None, HTTPStatusCode = 200\<rparr>"
  using rate_limit_and_validation_codes
          [of "\<lparr>Code = ''RATE_LIMIT_EXCEEDED'', Message = ''slow down'', RequestID = ''r1'',
                Data = None, HTTPStatusCode = 200\<rparr>"]
        rate_limit_and_validation_codes
          [of "\<lparr>Code = ''INVALID_PARAMETER'', Message = ''bad field'', RequestID = '''',
                Data = None, HTTPStatusCode = 200\<rparr>"]
  by simp

end
